theory Spec2Isabelle
  imports Main "HOL-Library.AList"
begin

section \<open>Python values, errors and dictionaries\<close>

text \<open>
  The calibration wrapper of \<^verbatim>\<open>cirq/google/engine/calibration.py\<close> reads a payload of
  dictionaries and lists.  The only Python values whose kind the code inspects are the
  metric names and lookup keys (\<^verbatim>\<open>isinstance(key, str)\<close>) and the timestamp
  (\<^verbatim>\<open>int(calibration['timestampMs'])\<close>): they are strings, integers or \<^verbatim>\<open>None\<close>.
  Metric values are never inspected, so their type is a parameter \<open>'v\<close>.
\<close>

datatype pyobj = PStr string | PInt int | PNone

fun is_str :: "pyobj \<Rightarrow> bool" where
  "is_str (PStr s) = True"
| "is_str (PInt i) = False"
| "is_str PNone = False"

text \<open>
  The three \<^verbatim>\<open>assert\<close> statements of the class raise \<^verbatim>\<open>AssertionError\<close>; the
  constructor argument records which one fired.  \<^verbatim>\<open>Only_one_untargeted\<close> is the assertion
  of \<^verbatim>\<open>_compute_metric_dict\<close> (the specification's \<^verbatim>\<open>DuplicateGlobalMetric\<close>), the other
  two are the assertions of \<^verbatim>\<open>heatmap\<close> (the specification's \<^verbatim>\<open>HeatmapShapeError\<close>).
  \<^verbatim>\<open>TypeError\<close> is the specification's \<^verbatim>\<open>InvalidKeyKind\<close>, \<^verbatim>\<open>KeyError\<close> its
  \<^verbatim>\<open>MetricNotFound\<close>.  Assertions are modelled as enabled (no \<^verbatim>\<open>python -O\<close>).
\<close>

datatype assertion = Only_one_untargeted | Heatmap_single_qubits | Heatmap_single_values

datatype error = TypeError | KeyError | ValueError | AssertionError assertion

text \<open>
  A Python \<^verbatim>\<open>dict\<close> keeps its keys in insertion order, and the order is observable through
  \<^verbatim>\<open>__iter__\<close>: a dictionary is an association list.  \<^verbatim>\<open>d[k] = v\<close> replaces the value
  in place when \<open>k\<close> is present and appends the pair otherwise, which is
  \<^const>\<open>AList.update\<close>; \<^verbatim>\<open>k in d\<close> and \<^verbatim>\<open>d[k]\<close> read through \<^const>\<open>map_of\<close>.
\<close>

type_synonym ('k, 'a) dict = "('k \<times> 'a) list"

definition dict_contains :: "('k, 'a) dict \<Rightarrow> 'k \<Rightarrow> bool" where
  "dict_contains d k = (map_of d k \<noteq> None)"

definition dict_setitem :: "('k, 'a) dict \<Rightarrow> 'k \<Rightarrow> 'a \<Rightarrow> ('k, 'a) dict" where
  "dict_setitem d k v = AList.update k v d"

definition dict_keys :: "('k, 'a) dict \<Rightarrow> 'k list" where
  "dict_keys d = map fst d"

text \<open>
  \<^verbatim>\<open>defaultdict(dict).__getitem__\<close>: a missing key is inserted with a fresh empty
  dictionary, which is returned.  The dictionary after the call is part of the result.
\<close>

definition dd_getitem ::
  "('k, ('a, 'b) dict) dict \<Rightarrow> 'k \<Rightarrow> ('a, 'b) dict \<times> ('k, ('a, 'b) dict) dict" where
  "dd_getitem d k =
     (case map_of d k of
        Some b \<Rightarrow> (b, d)
      | None \<Rightarrow> ([], d @ [(k, [])]))"

section \<open>The payload\<close>

text \<open>
  Modelled from the spec: the class \<^verbatim>\<open>devices.GridQubit\<close> is not among the sources.  The
  specification (sections 1 and 8) has the identifier parser produce a coordinate of a
  two-dimensional grid, written \<^verbatim>\<open>Qubit(0,0)\<close>; qubits are compared by their coordinates.
\<close>

datatype GridQubit = GridQubit (row: int) (col: int)

type_synonym 'v bucket = "(GridQubit list, 'v list) dict"

type_synonym 'v metric_dict = "(pyobj, 'v bucket) dict"

text \<open>
  One metric record of the payload: \<^verbatim>\<open>metric['name']\<close>, \<^verbatim>\<open>metric['values']\<close> (a list of
  dictionaries from a type tag to a value) and the optional \<^verbatim>\<open>metric['targets']\<close>.
\<close>

record 'v metric =
  metric_name :: pyobj
  metric_values :: "(string, 'v) dict list"
  metric_targets :: "string list option"

record 'v payload =
  timestampMs :: pyobj
  metrics :: "'v metric list"

record 'v Calibration =
  timestamp :: int
  metric_dict :: "'v metric_dict"

section \<open>Conversion of the timestamp\<close>

text \<open>
  Python's \<^verbatim>\<open>int(x)\<close> on the values of \<^typ>\<open>pyobj\<close>: an integer is returned as it is;
  a string is stripped of surrounding white space and read as an optional sign followed by
  decimal digits, where single underscores may separate digits; anything else is a
  \<^verbatim>\<open>ValueError\<close>; \<^verbatim>\<open>None\<close> is a \<^verbatim>\<open>TypeError\<close>.  Strings are ASCII strings, for
  which the white space of \<^verbatim>\<open>int\<close> is the six characters of \<open>is_space\<close>; the bound
  that recent interpreters put on the number of digits is not modelled.
\<close>

definition is_space :: "char \<Rightarrow> bool" where
  "is_space c = (c \<in> set [CHR '' '', CHR 0x09, CHR 0x0A, CHR 0x0B, CHR 0x0C, CHR 0x0D])"

definition is_digit :: "char \<Rightarrow> bool" where
  "is_digit c = (c \<in> set ''0123456789'')"

definition digit_val :: "char \<Rightarrow> int" where
  "digit_val c = int (of_char c) - 48"

fun parse_digits :: "bool \<Rightarrow> int \<Rightarrow> string \<Rightarrow> int option" where
  "parse_digits prev acc [] = (if prev then Some acc else None)"
| "parse_digits prev acc (c # cs) =
     (if is_digit c then parse_digits True (10 * acc + digit_val c) cs
      else if c = CHR ''_'' \<and> prev then parse_digits False acc cs
      else None)"

definition strip :: "string \<Rightarrow> string" where
  "strip s = rev (dropWhile is_space (rev (dropWhile is_space s)))"

definition int_of_str :: "string \<Rightarrow> error + int" where
  "int_of_str s =
     (case strip s of
        [] \<Rightarrow> Inl ValueError
      | c # cs \<Rightarrow>
          (if c = CHR ''-'' then
             (case parse_digits False 0 cs of None \<Rightarrow> Inl ValueError | Some n \<Rightarrow> Inr (- n))
           else if c = CHR ''+'' then
             (case parse_digits False 0 cs of None \<Rightarrow> Inl ValueError | Some n \<Rightarrow> Inr n)
           else
             (case parse_digits False 0 (c # cs) of None \<Rightarrow> Inl ValueError | Some n \<Rightarrow> Inr n)))"

fun py_int :: "pyobj \<Rightarrow> error + int" where
  "py_int (PInt i) = Inr i"
| "py_int (PStr s) = int_of_str s"
| "py_int PNone = Inl TypeError"

section \<open>Construction: \<^verbatim>\<open>_compute_metric_dict\<close> and \<^verbatim>\<open>__init__\<close>\<close>

text \<open>
  \<^verbatim>\<open>[v[t] for v in metric['values'] for t in v]\<close>: every key of every entry, in order,
  looked up in its entry.  An entry is a dictionary, so its keys are distinct and the
  lookup of one of its own keys cannot miss.
\<close>

definition flat_values :: "(string, 'v) dict list \<Rightarrow> 'v list" where
  "flat_values vs =
     concat (map (\<lambda>v. concat (map (\<lambda>t. case map_of v t of None \<Rightarrow> [] | Some x \<Rightarrow> [x])
                                    (dict_keys v))) vs)"

text \<open>\<^verbatim>\<open>t[1:] if t.startswith('q') else t\<close>\<close>

fun strip_q :: "string \<Rightarrow> string" where
  "strip_q [] = []"
| "strip_q (c # cs) = (if c = CHR ''q'' then cs else c # cs)"

text \<open>
  \<^verbatim>\<open>tuple(devices.GridQubit.from_proto_id(t) for t in targets)\<close>.  The identifier parser
  \<^verbatim>\<open>GridQubit.from_proto_id\<close> is a parameter \<open>parse\<close>; its first failure, left to right,
  is the failure of the whole tuple.
\<close>

fun parse_qubits :: "(string \<Rightarrow> error + GridQubit) \<Rightarrow> string list \<Rightarrow> error + GridQubit list" where
  "parse_qubits parse [] = Inr []"
| "parse_qubits parse (t # ts) =
     (case parse t of
        Inl e \<Rightarrow> Inl e
      | Inr q \<Rightarrow> (case parse_qubits parse ts of Inl e \<Rightarrow> Inl e | Inr qs \<Rightarrow> Inr (q # qs)))"

text \<open>
  \<^verbatim>\<open>results[name][key] = flat_values\<close>: the bucket is fetched through the default
  dictionary (which may insert it) and updated in place.
\<close>

definition store :: "'v metric_dict \<Rightarrow> pyobj \<Rightarrow> GridQubit list \<Rightarrow> 'v list \<Rightarrow> 'v metric_dict" where
  "store results name key flat =
     (case dd_getitem results name of
        (b, results') \<Rightarrow> dict_setitem results' name (dict_setitem b key flat))"

text \<open>The body of the loop of \<^verbatim>\<open>_compute_metric_dict\<close> for one record.\<close>

definition metric_step ::
  "(string \<Rightarrow> error + GridQubit) \<Rightarrow> 'v metric_dict \<Rightarrow> 'v metric \<Rightarrow> error + 'v metric_dict" where
  "metric_step parse results metric =
     (let name = metric_name metric;
          flat = flat_values (metric_values metric)
      in case metric_targets metric of
           Some ts \<Rightarrow>
             (case parse_qubits parse (map strip_q ts) of
                Inl e \<Rightarrow> Inl e
              | Inr qubits \<Rightarrow> Inr (store results name qubits flat))
         | None \<Rightarrow>
             (case dd_getitem results name of
                (b, results') \<Rightarrow>
                  if length b \<noteq> 0 then Inl (AssertionError Only_one_untargeted)
                  else Inr (store results' name [] flat)))"

fun metric_loop ::
  "(string \<Rightarrow> error + GridQubit) \<Rightarrow> 'v metric_dict \<Rightarrow> 'v metric list \<Rightarrow> error + 'v metric_dict" where
  "metric_loop parse results [] = Inr results"
| "metric_loop parse results (m # ms) =
     (case metric_step parse results m of
        Inl e \<Rightarrow> Inl e
      | Inr results' \<Rightarrow> metric_loop parse results' ms)"

definition compute_metric_dict ::
  "(string \<Rightarrow> error + GridQubit) \<Rightarrow> 'v metric list \<Rightarrow> error + 'v metric_dict" where
  "compute_metric_dict parse ms = metric_loop parse [] ms"

text \<open>\<^verbatim>\<open>Calibration.__init__\<close>: the timestamp is converted first, then the metrics.\<close>

definition Calibration_init ::
  "(string \<Rightarrow> error + GridQubit) \<Rightarrow> 'v payload \<Rightarrow> error + 'v Calibration" where
  "Calibration_init parse calibration =
     (case py_int (timestampMs calibration) of
        Inl e \<Rightarrow> Inl e
      | Inr t \<Rightarrow>
          (case compute_metric_dict parse (metrics calibration) of
             Inl e \<Rightarrow> Inl e
           | Inr d \<Rightarrow> Inr \<lparr>timestamp = t, metric_dict = d\<rparr>))"

section \<open>Queries\<close>

text \<open>
  The queries are methods of a mutable object whose \<^verbatim>\<open>_metric_dict\<close> is a
  \<^verbatim>\<open>defaultdict\<close>, so each returns the object after the call beside its result.
  \<^verbatim>\<open>__getitem__\<close> tests the kind of the key, then membership (\<^verbatim>\<open>in\<close> does not insert),
  and only then indexes the default dictionary.
\<close>

definition Calibration_getitem ::
  "'v Calibration \<Rightarrow> pyobj \<Rightarrow> (error + 'v bucket) \<times> 'v Calibration" where
  "Calibration_getitem self key =
     (if \<not> is_str key then (Inl TypeError, self)
      else if \<not> dict_contains (metric_dict self) key then (Inl KeyError, self)
      else (case dd_getitem (metric_dict self) key of
              (b, d') \<Rightarrow> (Inr b, self\<lparr>metric_dict := d'\<rparr>)))"

definition Calibration_iter :: "'v Calibration \<Rightarrow> pyobj list \<times> 'v Calibration" where
  "Calibration_iter self = (dict_keys (metric_dict self), self)"

definition Calibration_len :: "'v Calibration \<Rightarrow> nat \<times> 'v Calibration" where
  "Calibration_len self = (length (metric_dict self), self)"

text \<open>
  The dictionary comprehension of \<^verbatim>\<open>heatmap\<close>,
  \<^verbatim>\<open>{qubit: value for (qubit,), (value,) in metrics.items()}\<close>: an item whose key or
  value is not of length one cannot be unpacked, which is a \<^verbatim>\<open>ValueError\<close>.
\<close>

fun value_map :: "'v bucket \<Rightarrow> (GridQubit, 'v) dict \<Rightarrow> error + (GridQubit, 'v) dict" where
  "value_map [] acc = Inr acc"
| "value_map (([qubit], [v]) # items) acc = value_map items (dict_setitem acc qubit v)"
| "value_map (item # items) acc = Inl ValueError"

text \<open>
  Modelled from the spec: the class \<^verbatim>\<open>vis.Heatmap\<close> is not among the sources.  The
  specification (section 4.3) has the projector hand the mapping from qubits to values to
  the renderer and do no rendering itself, so the object built is the mapping it was given.
\<close>

datatype 'v Heatmap = Heatmap "(GridQubit, 'v) dict"

definition heatmap :: "'v Calibration \<Rightarrow> pyobj \<Rightarrow> (error + 'v Heatmap) \<times> 'v Calibration" where
  "heatmap self key =
     (case Calibration_getitem self key of
        (Inl e, self') \<Rightarrow> (Inl e, self')
      | (Inr items, self') \<Rightarrow>
          if \<not> list_all (\<lambda>k. length k = 1) (map fst items)
            then (Inl (AssertionError Heatmap_single_qubits), self')
          else if \<not> list_all (\<lambda>k. length k = 1) (map snd items)
            then (Inl (AssertionError Heatmap_single_values), self')
          else (case value_map items [] of
                  Inl e \<Rightarrow> (Inl e, self')
                | Inr m \<Rightarrow> (Inr (Heatmap m), self')))"

section \<open>Auxiliary definitions\<close>

text \<open>The bucket of a name, read without inserting: empty when the name has none.\<close>

definition bucket_of :: "('k, ('a, 'b) dict) dict \<Rightarrow> 'k \<Rightarrow> ('a, 'b) dict" where
  "bucket_of d k = (case map_of d k of None \<Rightarrow> [] | Some b \<Rightarrow> b)"

text \<open>No bucket has a key twice, as in any Python dictionary.\<close>

definition buckets_distinct :: "('k, ('a, 'b) dict) dict \<Rightarrow> bool" where
  "buckets_distinct r = (\<forall>n. distinct (map fst (bucket_of r n)))"

text \<open>
  The distinct elements of a list in the order of their first occurrence: the head, then
  the first occurrences of the rest without the head.
\<close>

fun first_occurrences :: "'a list \<Rightarrow> 'a list" where
  "first_occurrences [] = []"
| "first_occurrences (x # xs) = x # filter (\<lambda>y. y \<noteq> x) (first_occurrences xs)"

text \<open>
  A client of the read-only interface: a finite sequence of \<^verbatim>\<open>calibration[key]\<close> and
  \<^verbatim>\<open>iter(calibration)\<close> calls on one object, each started on the object the previous
  one left.
\<close>

datatype call = Get pyobj | Iterate

datatype 'v outcome = Got "error + 'v bucket" | Names "pyobj list"

fun do_call :: "'v Calibration \<Rightarrow> call \<Rightarrow> 'v outcome \<times> 'v Calibration" where
  "do_call self (Get key) = (case Calibration_getitem self key of (r, self') \<Rightarrow> (Got r, self'))"
| "do_call self Iterate = (case Calibration_iter self of (ks, self') \<Rightarrow> (Names ks, self'))"

fun run_calls :: "'v Calibration \<Rightarrow> call list \<Rightarrow> 'v outcome list \<times> 'v Calibration" where
  "run_calls self [] = ([], self)"
| "run_calls self (c # cs) =
     (case do_call self c of
        (out, self') \<Rightarrow> (case run_calls self' cs of (outs, self'') \<Rightarrow> (out # outs, self'')))"

text \<open>
  Modelled from the spec: \<^verbatim>\<open>GridQubit.from_proto_id\<close> is not among the sources.  The
  specification gives its contract (section 6: a string is parsed to a qubit, malformed
  input fails) and one value (section 8: \<^verbatim>\<open>0_0\<close> is the qubit at row 0, column 0).  The
  functions above take the parser as a parameter; this instance, which reads
  \<^verbatim>\<open><row>_<col>\<close> with optionally negative decimal numbers, is the parser of the closed
  examples.
\<close>

definition decimal :: "string \<Rightarrow> int option" where
  "decimal s =
     (if s \<noteq> [] \<and> list_all is_digit s
      then Some (foldl (\<lambda>a c. 10 * a + digit_val c) 0 s) else None)"

definition signed_decimal :: "string \<Rightarrow> int option" where
  "signed_decimal s =
     (case s of
        [] \<Rightarrow> None
      | c # cs \<Rightarrow> if c = CHR ''-'' then map_option uminus (decimal cs) else decimal s)"

definition from_proto_id :: "string \<Rightarrow> error + GridQubit" where
  "from_proto_id s =
     (case dropWhile (\<lambda>c. c \<noteq> CHR ''_'') s of
        [] \<Rightarrow> Inl ValueError
      | u # rest \<Rightarrow>
          (case (signed_decimal (takeWhile (\<lambda>c. c \<noteq> CHR ''_'') s), signed_decimal rest) of
             (Some r, Some c) \<Rightarrow> Inr (GridQubit r c)
           | _ \<Rightarrow> Inl ValueError))"

text \<open>
  An example payload: two single-qubit records of \<^verbatim>\<open>t1\<close>, one record of \<^verbatim>\<open>fidelity\<close>
  without targets, and one record of \<^verbatim>\<open>xeb\<close> with two values; and the calibration that
  is constructed from it.
\<close>

definition example_payload :: "int payload" where
  "example_payload =
     \<lparr>timestampMs = PStr ''1000'',
      metrics =
        [\<lparr>metric_name = PStr ''t1'', metric_values = [[(''double_val'', 321)]],
          metric_targets = Some [''q0_0'']\<rparr>,
         \<lparr>metric_name = PStr ''fidelity'', metric_values = [[(''double_val'', 1)]],
          metric_targets = None\<rparr>,
         \<lparr>metric_name = PStr ''t1'', metric_values = [[(''double_val'', 11)]],
          metric_targets = Some [''q0_1'']\<rparr>,
         \<lparr>metric_name = PStr ''xeb'', metric_values = [[(''double_val'', 1)], [(''double_val'', 2)]],
          metric_targets = Some [''q0_0'']\<rparr>]\<rparr>"

definition example_calibration :: "int Calibration" where
  "example_calibration =
     \<lparr>timestamp = 1000,
      metric_dict =
        [(PStr ''t1'', [([GridQubit 0 0], [321]), ([GridQubit 0 1], [11])]),
         (PStr ''fidelity'', [([], [1])]),
         (PStr ''xeb'', [([GridQubit 0 0], [1, 2])])]\<rparr>"

section \<open>Dictionary lemmas\<close>

lemma update_fresh: "k \<notin> fst ` set al \<Longrightarrow> AList.update k v al = al @ [(k, v)]"
  by (induction al) auto

lemma update_append_last:
  "k \<notin> fst ` set al \<Longrightarrow> AList.update k v (al @ [(k, w)]) = al @ [(k, v)]"
  by (induction al) auto

lemma dd_getitem_fst: "fst (dd_getitem d k) = bucket_of d k"
  by (simp add: dd_getitem_def bucket_of_def split: option.splits)

lemma dd_getitem_present: "map_of d k = Some b \<Longrightarrow> dd_getitem d k = (b, d)"
  by (simp add: dd_getitem_def)

lemma store_eq: "store r n k f = AList.update n (AList.update k f (bucket_of r n)) r"
proof (cases "map_of r n")
  case None
  then have "n \<notin> fst ` set r" by (simp add: map_of_eq_None_iff)
  then show ?thesis using None
    by (simp add: store_def dd_getitem_def dict_setitem_def bucket_of_def
        update_fresh update_append_last)
next
  case (Some b)
  then show ?thesis
    by (simp add: store_def dd_getitem_def dict_setitem_def bucket_of_def)
qed

lemma store_map_of:
  "map_of (store r n k f) = (map_of r)(n \<mapsto> AList.update k f (bucket_of r n))"
  by (simp add: store_eq update_conv')

lemma store_keys:
  "map fst (store r n k f) = (if n \<in> set (map fst r) then map fst r else map fst r @ [n])"
  by (simp add: store_eq update_keys)

lemma bucket_of_store:
  "bucket_of (store r n k f) n' =
     (if n' = n then AList.update k f (bucket_of r n) else bucket_of r n')"
  by (simp add: bucket_of_def store_map_of)

lemma store_after_touch: "store (snd (dd_getitem r n)) n k f = store r n k f"
proof (cases "map_of r n")
  case None
  then have "n \<notin> fst ` set r" by (simp add: map_of_eq_None_iff)
  then show ?thesis using None
    by (simp add: store_eq dd_getitem_def bucket_of_def update_fresh update_append_last
        map_add_def)
next
  case (Some b)
  then show ?thesis by (simp add: dd_getitem_def)
qed

section \<open>One record\<close>

lemma metric_step_targeted:
  "metric_targets m = Some ts \<Longrightarrow> parse_qubits parse (map strip_q ts) = Inr qs \<Longrightarrow>
   metric_step parse r m = Inr (store r (metric_name m) qs (flat_values (metric_values m)))"
  by (simp add: metric_step_def)

lemma metric_step_targeted_error:
  "metric_targets m = Some ts \<Longrightarrow> parse_qubits parse (map strip_q ts) = Inl e \<Longrightarrow>
   metric_step parse r m = Inl e"
  by (simp add: metric_step_def)

lemma metric_step_untargeted:
  assumes "metric_targets m = None"
  shows "metric_step parse r m =
     (if bucket_of r (metric_name m) \<noteq> [] then Inl (AssertionError Only_one_untargeted)
      else Inr (store r (metric_name m) [] (flat_values (metric_values m))))"
proof -
  obtain b r1 where g: "dd_getitem r (metric_name m) = (b, r1)"
    by (cases "dd_getitem r (metric_name m)")
  have b: "b = bucket_of r (metric_name m)"
    using dd_getitem_fst [of r "metric_name m"] g by simp
  have r1: "store r1 (metric_name m) [] (flat_values (metric_values m)) =
            store r (metric_name m) [] (flat_values (metric_values m))"
    using store_after_touch [of r "metric_name m"] g by simp
  show ?thesis
    using assms by (simp add: metric_step_def Let_def g b [symmetric] r1)
qed

lemma metric_step_Inr:
  assumes "metric_step parse r m = Inr r'"
  shows "\<exists>k. r' = store r (metric_name m) k (flat_values (metric_values m)) \<and>
             (case metric_targets m of
                Some ts \<Rightarrow> parse_qubits parse (map strip_q ts) = Inr k
              | None \<Rightarrow> k = [] \<and> bucket_of r (metric_name m) = [])"
proof (cases "metric_targets m")
  case None
  then show ?thesis using assms by (auto simp: metric_step_untargeted split: if_splits)
next
  case (Some ts)
  then show ?thesis using assms
    by (cases "parse_qubits parse (map strip_q ts)")
       (auto simp: metric_step_targeted metric_step_targeted_error)
qed

lemma metric_loop_append:
  "metric_loop parse r (xs @ ys) =
     (case metric_loop parse r xs of Inl e \<Rightarrow> Inl e | Inr r' \<Rightarrow> metric_loop parse r' ys)"
  by (induction xs arbitrary: r) (auto split: sum.splits)

lemma parse_qubits_map:
  "parse_qubits parse ss = Inr qs \<longleftrightarrow> map parse ss = map Inr qs"
proof (induction ss arbitrary: qs)
  case Nil
  then show ?case by auto
next
  case (Cons s ss)
  show ?case
  proof (cases "parse s")
    case (Inl e)
    then show ?thesis by (cases qs) auto
  next
    case (Inr q)
    show ?thesis
    proof (cases "parse_qubits parse ss")
      case (Inl e)
      then have "\<And>qs'. map parse ss \<noteq> map Inr qs'" using Cons.IH by auto
      with Inl Inr show ?thesis by (cases qs) auto
    next
      case r: (Inr qs')
      then have "map parse ss = map Inr qs'" using Cons.IH by simp
      with r Inr show ?thesis by (cases qs) (auto simp: inj_map_eq_map)
    qed
  qed
qed

lemma flat_values_tagged:
  "flat_values (map (\<lambda>(tag, x). [(tag, x)]) tagged) = map snd tagged"
  by (induction tagged) (auto simp: flat_values_def dict_keys_def)

lemma map_of_bucket_of: "map_of r n = Some b \<Longrightarrow> bucket_of r n = b"
  by (simp add: bucket_of_def)

section \<open>Invariants of the loop\<close>

lemma metric_step_bucket_keys:
  assumes "metric_step parse r m = Inr r'"
  shows "fst ` set (bucket_of r n) \<subseteq> fst ` set (bucket_of r' n)"
proof -
  obtain k where "r' = store r (metric_name m) k (flat_values (metric_values m))"
    using metric_step_Inr [OF assms] by blast
  then show ?thesis by (auto simp: bucket_of_store dom_update)
qed

lemma metric_loop_bucket_keys:
  "metric_loop parse r ms = Inr r' \<Longrightarrow> fst ` set (bucket_of r n) \<subseteq> fst ` set (bucket_of r' n)"
proof (induction ms arbitrary: r)
  case Nil
  then show ?case by simp
next
  case (Cons m ms)
  then obtain r1 where s: "metric_step parse r m = Inr r1" and l: "metric_loop parse r1 ms = Inr r'"
    by (auto split: sum.splits)
  show ?case using metric_step_bucket_keys [OF s, of n] Cons.IH [OF l] by blast
qed

lemma metric_step_distinct:
  assumes "metric_step parse r m = Inr r'" and "buckets_distinct r"
  shows "buckets_distinct r'"
proof -
  obtain k where "r' = store r (metric_name m) k (flat_values (metric_values m))"
    using metric_step_Inr [OF assms(1)] by blast
  then show ?thesis using assms(2)
    by (simp add: buckets_distinct_def bucket_of_store distinct_update)
qed

lemma metric_loop_distinct:
  "metric_loop parse r ms = Inr r' \<Longrightarrow> buckets_distinct r \<Longrightarrow> buckets_distinct r'"
proof (induction ms arbitrary: r)
  case Nil
  then show ?case by simp
next
  case (Cons m ms)
  then obtain r1 where s: "metric_step parse r m = Inr r1" and l: "metric_loop parse r1 ms = Inr r'"
    by (auto split: sum.splits)
  show ?case using Cons.IH [OF l metric_step_distinct [OF s Cons.prems(2)]] .
qed

lemma compute_metric_dict_distinct:
  "compute_metric_dict parse ms = Inr r \<Longrightarrow> buckets_distinct r"
  unfolding compute_metric_dict_def
  by (erule metric_loop_distinct) (simp add: buckets_distinct_def bucket_of_def)

lemma bucket_of_nonempty: "bucket_of r n \<noteq> [] \<Longrightarrow> map_of r n = Some (bucket_of r n)"
  by (auto simp: bucket_of_def split: option.splits)

lemma metric_loop_snoc_split:
  assumes "metric_loop parse r0 (pre @ m # mid) = Inr r"
  shows "\<exists>ra rb. metric_loop parse r0 pre = Inr ra \<and> metric_step parse ra m = Inr rb \<and>
                 metric_loop parse rb mid = Inr r"
  using assms by (auto simp: metric_loop_append split: sum.splits)

lemma Calibration_init_Inr:
  "Calibration_init parse p = Inr cal \<longleftrightarrow>
     (\<exists>t d. py_int (timestampMs p) = Inr t \<and> compute_metric_dict parse (metrics p) = Inr d \<and>
            cal = \<lparr>timestamp = t, metric_dict = d\<rparr>)"
  by (auto simp: Calibration_init_def split: sum.splits)


section \<open>Order of the names\<close>

lemma metric_step_keys:
  assumes "metric_step parse r m = Inr r'"
  shows "map fst r' =
     (if metric_name m \<in> set (map fst r) then map fst r else map fst r @ [metric_name m])"
proof -
  obtain k where "r' = store r (metric_name m) k (flat_values (metric_values m))"
    using metric_step_Inr [OF assms] by blast
  then show ?thesis by (simp only: store_keys)
qed

lemma filter_first_occurrences_absorb:
  "x \<in> A \<Longrightarrow> filter (\<lambda>n. n \<notin> A) (filter (\<lambda>y. y \<noteq> x) xs) = filter (\<lambda>n. n \<notin> A) xs"
  by (induction xs) auto

lemma metric_loop_keys:
  "metric_loop parse r ms = Inr r' \<Longrightarrow>
   map fst r' =
     map fst r @ filter (\<lambda>n. n \<notin> set (map fst r)) (first_occurrences (map metric_name ms))"
proof (induction ms arbitrary: r)
  case Nil
  then show ?case by simp
next
  case (Cons m ms)
  then obtain r1 where s: "metric_step parse r m = Inr r1"
    and l: "metric_loop parse r1 ms = Inr r'"
    by (auto split: sum.splits)
  let ?F = "first_occurrences (map metric_name ms)"
  have ih: "map fst r' = map fst r1 @ filter (\<lambda>n. n \<notin> set (map fst r1)) ?F"
    using Cons.IH [OF l] .
  show ?case
  proof (cases "metric_name m \<in> set (map fst r)")
    case True
    then have k: "map fst r1 = map fst r" using metric_step_keys [OF s] by simp
    have "filter (\<lambda>n. n \<notin> set (map fst r)) (filter (\<lambda>y. y \<noteq> metric_name m) ?F) =
          filter (\<lambda>n. n \<notin> set (map fst r)) ?F"
      using True by (rule filter_first_occurrences_absorb)
    then have "filter (\<lambda>n. n \<notin> set (map fst r)) (first_occurrences (map metric_name (m # ms))) =
          filter (\<lambda>n. n \<notin> set (map fst r)) ?F"
      using True by (simp del: filter_filter)
    with ih k show ?thesis by (simp only:)
  next
    case False
    then have k: "map fst r1 = map fst r @ [metric_name m]"
      using metric_step_keys [OF s] by simp
    have "filter (\<lambda>n. n \<notin> set (map fst r1)) ?F =
          filter (\<lambda>n. n \<notin> set (map fst r)) (filter (\<lambda>y. y \<noteq> metric_name m) ?F)"
      by (simp add: k conj_commute)
    then have "map fst r' = map fst r @ metric_name m #
          filter (\<lambda>n. n \<notin> set (map fst r)) (filter (\<lambda>y. y \<noteq> metric_name m) ?F)"
      using ih k by simp
    then show ?thesis using False by (simp del: filter_filter)
  qed
qed

lemma set_first_occurrences: "set (first_occurrences xs) = set xs"
  by (induction xs) auto

lemma distinct_first_occurrences: "distinct (first_occurrences xs)"
  by (induction xs) auto

lemma length_first_occurrences: "length (first_occurrences xs) = card (set xs)"
  using distinct_card [OF distinct_first_occurrences, of xs]
  by (simp add: set_first_occurrences)

section \<open>The heat map of single-qubit, single-value buckets\<close>

lemma getitem_present:
  "is_str key \<Longrightarrow> map_of (metric_dict self) key = Some b \<Longrightarrow>
   Calibration_getitem self key = (Inr b, self)"
  by (simp add: Calibration_getitem_def dict_contains_def dd_getitem_def)

lemma singleton_shape:
  "list_all (\<lambda>k. length k = 1) (map fst b) \<Longrightarrow> list_all (\<lambda>v. length v = 1) (map snd b) \<Longrightarrow>
   \<exists>hm. b = map (\<lambda>(q, x). ([q], [x])) hm"
proof (induction b)
  case Nil
  then show ?case by simp
next
  case (Cons item b)
  obtain k v where item: "item = (k, v)" by (cases item)
  from Cons.prems item obtain q x where kv: "k = [q]" "v = [x]"
    by (auto simp: length_Suc_conv)
  from Cons obtain hm where "b = map (\<lambda>(q, x). ([q], [x])) hm" by auto
  then have "item # b = map (\<lambda>(q, x). ([q], [x])) ((q, x) # hm)"
    using item kv by simp
  then show ?case by (rule exI [of _ "(q, x) # hm"])
qed

lemma value_map_singletons:
  "distinct (map fst acc @ map fst hm) \<Longrightarrow>
   value_map (map (\<lambda>(q, x). ([q], [x])) hm) acc = Inr (acc @ hm)"
proof (induction hm arbitrary: acc)
  case Nil
  then show ?case by simp
next
  case (Cons item hm)
  obtain q x where item: "item = (q, x)" by (cases item)
  have fresh: "q \<notin> fst ` set acc" using Cons.prems item by auto
  have "distinct (map fst (acc @ [(q, x)]) @ map fst hm)"
    using Cons.prems item by auto
  then have "value_map (map (\<lambda>(q, x). ([q], [x])) hm) (acc @ [(q, x)]) = Inr ((acc @ [(q, x)]) @ hm)"
    by (rule Cons.IH)
  then show ?case
    using item fresh by (simp add: dict_setitem_def update_fresh)
qed

lemma singleton_keys_distinct:
  assumes "distinct (map fst (map (\<lambda>(q, x). ([q], [x])) hm))"
  shows "distinct (map fst hm)"
  using assms by (induction hm) force+

section \<open>Lookup\<close>

lemma getitem_frame: "Calibration_getitem self key = (r, self') \<Longrightarrow> self' = self"
  by (auto simp add: Calibration_getitem_def dict_contains_def dd_getitem_def split: if_splits)

lemma do_call_frame: "snd (do_call self c) = self"
  by (cases c) (auto simp: Calibration_iter_def split: prod.splits dest: getitem_frame)

lemmas eval_defs =
  int_of_str_def strip_def is_space_def is_digit_def digit_val_def
  compute_metric_dict_def metric_step_def flat_values_def dict_keys_def store_def
  dd_getitem_def dict_setitem_def dict_contains_def
  from_proto_id_def signed_decimal_def decimal_def
  Calibration_init_def Calibration_getitem_def Calibration_iter_def Calibration_len_def
  heatmap_def

text \<open>
  Claim C4.  On every calibration object and every key, \<^verbatim>\<open>__getitem__\<close> raises
  \<^verbatim>\<open>TypeError\<close> (InvalidKeyKind) when the key is not a string, whether or not the
  dictionary has that key; raises \<^verbatim>\<open>KeyError\<close> (MetricNotFound) for a string key without
  a bucket; and returns the bucket of a string key that has one.  The kind of the key is
  tested before membership.  The object is the same after each of the three.
\<close>

theorem getitem_cases:
  "(\<not> is_str key \<longrightarrow> Calibration_getitem self key = (Inl TypeError, self)) \<and>
   (is_str key \<and> map_of (metric_dict self) key = None \<longrightarrow>
      Calibration_getitem self key = (Inl KeyError, self)) \<and>
   (\<forall>b. is_str key \<and> map_of (metric_dict self) key = Some b \<longrightarrow>
      Calibration_getitem self key = (Inr b, self))"
  by (simp add: Calibration_getitem_def dict_contains_def dd_getitem_def)

theorem getitem_cases_witness:
  "\<not> is_str (PInt 5) \<and>
   map_of (metric_dict \<lparr>timestamp = 7, metric_dict = [(PInt 5, [([], [1::int])])]\<rparr>) (PInt 5)
     = Some [([], [1])] \<and>
   Calibration_getitem \<lparr>timestamp = 7, metric_dict = [(PInt 5, [([], [1::int])])]\<rparr> (PInt 5)
     = (Inl TypeError, \<lparr>timestamp = 7, metric_dict = [(PInt 5, [([], [1])])]\<rparr>) \<and>
   is_str (PStr ''t2'') \<and>
   map_of (metric_dict \<lparr>timestamp = 7, metric_dict = [(PStr ''t1'', [([], [1::int])])]\<rparr>)
     (PStr ''t2'') = None \<and>
   Calibration_getitem \<lparr>timestamp = 7, metric_dict = [(PStr ''t1'', [([], [1::int])])]\<rparr>
     (PStr ''t2'')
     = (Inl KeyError, \<lparr>timestamp = 7, metric_dict = [(PStr ''t1'', [([], [1])])]\<rparr>) \<and>
   is_str (PStr ''t1'') \<and>
   map_of (metric_dict \<lparr>timestamp = 7, metric_dict = [(PStr ''t1'', [([], [1::int])])]\<rparr>)
     (PStr ''t1'') = Some [([], [1])] \<and>
   Calibration_getitem \<lparr>timestamp = 7, metric_dict = [(PStr ''t1'', [([], [1::int])])]\<rparr>
     (PStr ''t1'')
     = (Inr [([], [1])], \<lparr>timestamp = 7, metric_dict = [(PStr ''t1'', [([], [1])])]\<rparr>)"
  using
    getitem_cases [of "PInt 5" "\<lparr>timestamp = 7, metric_dict = [(PInt 5, [([], [1::int])])]\<rparr>"]
    getitem_cases [of "PStr ''t2''"
      "\<lparr>timestamp = 7, metric_dict = [(PStr ''t1'', [([], [1::int])])]\<rparr>"]
    getitem_cases [of "PStr ''t1''"
      "\<lparr>timestamp = 7, metric_dict = [(PStr ''t1'', [([], [1::int])])]\<rparr>"]
  by simp

text \<open>
  Claim C10.  \<^verbatim>\<open>heatmap\<close> with a key that is not a string raises \<^verbatim>\<open>TypeError\<close>
  (InvalidKeyKind), and with a string key that has no bucket raises \<^verbatim>\<open>KeyError\<close>
  (MetricNotFound), neither being an assertion failure of the shape check: the errors of
  the lookup come first and pass through.
\<close>

theorem heatmap_lookup_errors:
  "(\<not> is_str key \<longrightarrow> heatmap self key = (Inl TypeError, self)) \<and>
   (is_str key \<and> map_of (metric_dict self) key = None \<longrightarrow>
      heatmap self key = (Inl KeyError, self))"
  by (simp add: heatmap_def Calibration_getitem_def dict_contains_def)

theorem heatmap_lookup_errors_witness:
  "\<not> is_str PNone \<and>
   heatmap \<lparr>timestamp = 7, metric_dict = [(PStr ''t1'', [([], [1::int]), ([], [2])])]\<rparr> PNone
     = (Inl TypeError,
        \<lparr>timestamp = 7, metric_dict = [(PStr ''t1'', [([], [1]), ([], [2])])]\<rparr>) \<and>
   is_str (PStr ''t2'') \<and>
   map_of (metric_dict \<lparr>timestamp = 7, metric_dict = [(PStr ''t1'', [([], [1::int])])]\<rparr>)
     (PStr ''t2'') = None \<and>
   heatmap \<lparr>timestamp = 7, metric_dict = [(PStr ''t1'', [([], [1::int])])]\<rparr> (PStr ''t2'')
     = (Inl KeyError, \<lparr>timestamp = 7, metric_dict = [(PStr ''t1'', [([], [1])])]\<rparr>)"
  using
    heatmap_lookup_errors [of PNone
      "\<lparr>timestamp = 7, metric_dict = [(PStr ''t1'', [([], [1::int]), ([], [2])])]\<rparr>"]
    heatmap_lookup_errors [of "PStr ''t2''"
      "\<lparr>timestamp = 7, metric_dict = [(PStr ''t1'', [([], [1::int])])]\<rparr>"]
  by simp

text \<open>
  Claim C8.  After any finite sequence of \<^verbatim>\<open>__getitem__\<close> and \<^verbatim>\<open>__iter__\<close> calls,
  failing lookups included, the object (its timestamp and its metric dictionary) is the one
  the sequence started on, and every call returned what the same call returns on the
  initial object; so no lookup inserted a bucket and repeated calls agree.
\<close>

theorem run_calls_frame:
  "run_calls self cs = (map (\<lambda>c. fst (do_call self c)) cs, self)"
proof (induction cs)
  case Nil
  then show ?case by simp
next
  case (Cons c cs)
  obtain out s1 where d: "do_call self c = (out, s1)" by (cases "do_call self c")
  then have "s1 = self" using do_call_frame [of self c] by simp
  with d Cons show ?case by simp
qed

theorem run_calls_frame_witness:
  "run_calls \<lparr>timestamp = 7, metric_dict = [(PStr ''t1'', [([], [1::int])])]\<rparr>
     [Get (PStr ''t2''), Iterate, Get (PInt 3), Get (PStr ''t1''), Get (PStr ''t2''), Iterate]
   = ([Got (Inl KeyError), Names [PStr ''t1''], Got (Inl TypeError), Got (Inr [([], [1])]),
       Got (Inl KeyError), Names [PStr ''t1'']],
      \<lparr>timestamp = 7, metric_dict = [(PStr ''t1'', [([], [1])])]\<rparr>)"
  using run_calls_frame [of "\<lparr>timestamp = 7, metric_dict = [(PStr ''t1'', [([], [1::int])])]\<rparr>"
    "[Get (PStr ''t2''), Iterate, Get (PInt 3), Get (PStr ''t1''), Get (PStr ''t2''), Iterate]"]
  by (simp add: eval_defs)

section \<open>Construction\<close>

text \<open>
  Claim C6.  The payload with timestamp \<^verbatim>\<open>"1000"\<close> and the one record named \<^verbatim>\<open>t1\<close>
  with values \<^verbatim>\<open>[{"double_val": 321}]\<close> and targets \<^verbatim>\<open>["q0_0"]\<close> is constructed, for
  every identifier parser that reads \<^verbatim>\<open>0_0\<close> as the qubit at row 0 and column 0, into a
  calibration with timestamp 1000 whose \<^verbatim>\<open>t1\<close> is the one-entry mapping from that qubit's
  tuple to \<^verbatim>\<open>[321]\<close> and whose heat map of \<^verbatim>\<open>t1\<close> sends that qubit to 321.
\<close>

theorem round_trip:
  assumes "parse ''0_0'' = Inr (GridQubit 0 0)"
  shows "\<exists>cal.
     Calibration_init parse
       \<lparr>timestampMs = PStr ''1000'',
        metrics = [\<lparr>metric_name = PStr ''t1'',
                    metric_values = [[(''double_val'', 321::int)]],
                    metric_targets = Some [''q0_0'']\<rparr>]\<rparr> = Inr cal \<and>
     timestamp cal = 1000 \<and>
     Calibration_getitem cal (PStr ''t1'') = (Inr [([GridQubit 0 0], [321])], cal) \<and>
     heatmap cal (PStr ''t1'') = (Inr (Heatmap [(GridQubit 0 0, 321)]), cal)"
  using assms by (simp add: eval_defs)

theorem round_trip_witness:
  "from_proto_id ''0_0'' = Inr (GridQubit 0 0) \<and>
   (\<exists>cal.
     Calibration_init from_proto_id
       \<lparr>timestampMs = PStr ''1000'',
        metrics = [\<lparr>metric_name = PStr ''t1'',
                    metric_values = [[(''double_val'', 321::int)]],
                    metric_targets = Some [''q0_0'']\<rparr>]\<rparr> = Inr cal \<and>
     timestamp cal = 1000 \<and>
     Calibration_getitem cal (PStr ''t1'') = (Inr [([GridQubit 0 0], [321])], cal) \<and>
     heatmap cal (PStr ''t1'') = (Inr (Heatmap [(GridQubit 0 0, 321)]), cal))"
proof -
  have h: "from_proto_id ''0_0'' = Inr (GridQubit 0 0)"
    by (simp add: from_proto_id_def signed_decimal_def decimal_def is_digit_def digit_val_def)
  show ?thesis using h round_trip [of from_proto_id] by blast
qed

text \<open>A record without targets that is accepted leaves its bucket with the empty tuple alone.\<close>

lemma untargeted_record_alone:
  assumes "metric_targets m = None" and "metric_step parse r m = Inr r'"
  shows "map_of r' (metric_name m) = Some [([], flat_values (metric_values m))]"
  using assms by (auto simp: metric_step_untargeted store_map_of split: if_splits)

text \<open>
  The key under which a record with targets is stored, without reference to \<open>strip_q\<close>:
  a target that starts with \<^verbatim>\<open>q\<close> loses that one character (\<^verbatim>\<open>t[1:]\<close>), any other target
  is parsed as it is.
\<close>

lemma strip_q_take_drop: "strip_q t = (if take 1 t = ''q'' then drop 1 t else t)"
  by (cases t) auto

lemma parse_qubits_spec:
  "parse_qubits parse (map strip_q ts) = Inr qs \<longleftrightarrow>
   map (\<lambda>t. parse (if take 1 t = ''q'' then drop 1 t else t)) ts = map Inr qs"
proof -
  have "map parse (map strip_q ts) =
        map (\<lambda>t. parse (if take 1 t = ''q'' then drop 1 t else t)) ts"
    by (simp add: strip_q_take_drop comp_def del: strip_q.simps)
  then show ?thesis by (simp only: parse_qubits_map)
qed

lemma metric_step_keeps_entry:
  assumes s: "metric_step parse r m = Inr r'"
      and v: "map_of (bucket_of r n) k = Some v"
      and o: "\<forall>ts'. metric_name m = n \<and> metric_targets m = Some ts' \<longrightarrow>
                parse_qubits parse (map strip_q ts') \<noteq> Inr k"
  shows "map_of (bucket_of r' n) k = Some v"
proof -
  obtain k' where r': "r' = store r (metric_name m) k' (flat_values (metric_values m))"
    and c: "case metric_targets m of
              Some ts \<Rightarrow> parse_qubits parse (map strip_q ts) = Inr k'
            | None \<Rightarrow> k' = [] \<and> bucket_of r (metric_name m) = []"
    using metric_step_Inr [OF s] by blast
  show ?thesis
  proof (cases "metric_name m = n")
    case False
    then show ?thesis using r' v by (simp add: bucket_of_store)
  next
    case True
    have "k' \<noteq> k"
    proof (cases "metric_targets m")
      case None
      then have "bucket_of r n = []" using c True by simp
      then show ?thesis using v by simp
    next
      case (Some ts)
      then show ?thesis using c o True by auto
    qed
    then show ?thesis using r' v True by (simp add: bucket_of_store update_conv')
  qed
qed

lemma metric_loop_keeps_entry:
  "metric_loop parse r ms = Inr r' \<Longrightarrow> map_of (bucket_of r n) k = Some v \<Longrightarrow>
   \<forall>m' \<in> set ms. \<forall>ts'. metric_name m' = n \<and> metric_targets m' = Some ts' \<longrightarrow>
      parse_qubits parse (map strip_q ts') \<noteq> Inr k \<Longrightarrow>
   map_of (bucket_of r' n) k = Some v"
proof (induction ms arbitrary: r)
  case Nil
  then show ?case by simp
next
  case (Cons m ms)
  from Cons.prems(1) obtain r1 where s: "metric_step parse r m = Inr r1"
    and l: "metric_loop parse r1 ms = Inr r'"
    by (auto split: sum.splits)
  have "map_of (bucket_of r1 n) k = Some v"
    using metric_step_keeps_entry [OF s Cons.prems(2)] Cons.prems(3) by simp
  then show ?case using Cons.IH [OF l] Cons.prems(3) by simp
qed

lemma bucket_entry_map_of:
  "map_of (bucket_of r n) k = Some v \<Longrightarrow> map_of r n = Some (bucket_of r n)"
  by (rule bucket_of_nonempty) auto

lemma stored_entry_survives:
  assumes d: "compute_metric_dict parse (pre @ m # post) = Inr d"
      and t: "metric_targets m = Some ts"
      and q: "parse_qubits parse (map strip_q ts) = Inr qs"
      and o: "\<forall>m' \<in> set post. \<forall>ts'. metric_name m' = metric_name m \<and> metric_targets m' = Some ts' \<longrightarrow>
                parse_qubits parse (map strip_q ts') \<noteq> Inr qs"
  shows "map_of d (metric_name m) = Some (bucket_of d (metric_name m)) \<and>
         map_of (bucket_of d (metric_name m)) qs = Some (flat_values (metric_values m)) \<and>
         distinct (map fst (bucket_of d (metric_name m)))"
proof -
  obtain ra rb where ra: "metric_loop parse [] pre = Inr ra"
    and rb: "metric_step parse ra m = Inr rb" and rd: "metric_loop parse rb post = Inr d"
    using metric_loop_snoc_split d unfolding compute_metric_dict_def by blast
  have "rb = store ra (metric_name m) qs (flat_values (metric_values m))"
    using rb t q by (simp add: metric_step_targeted)
  then have "map_of (bucket_of rb (metric_name m)) qs = Some (flat_values (metric_values m))"
    by (simp add: bucket_of_store update_conv')
  then have e: "map_of (bucket_of d (metric_name m)) qs = Some (flat_values (metric_values m))"
    using metric_loop_keeps_entry [OF rd] o by blast
  have "distinct (map fst (bucket_of d (metric_name m)))"
    using compute_metric_dict_distinct [OF d] by (simp add: buckets_distinct_def)
  then show ?thesis using e bucket_entry_map_of [OF e] by simp
qed

text \<open>
  Claim C5.  Let a record \<open>m\<close> of a payload have targets, let its values be one-key
  dictionaries \<^verbatim>\<open>{tag: x}\<close>, and let its targets, each with one leading \<^verbatim>\<open>q\<close> removed if
  it has one, be parsed to the qubits \<open>qs\<close> in the order of the targets.  Then
  construction stores the list of the \<open>x\<close>, in their order and without the tags, under
  the record's name and the tuple \<open>qs\<close>: if the payload cut before \<open>m\<close> is constructed,
  so is the payload cut after \<open>m\<close>, and its calibration has that entry; and whenever the
  whole payload is constructed and no later record of that name has targets that parse to
  \<open>qs\<close>, the constructed calibration has that entry.
\<close>

theorem targeted_record_stored:
  assumes "metrics p = pre @ m # post"
      and "metric_targets m = Some ts"
      and "metric_values m = map (\<lambda>(tag, x). [(tag, x)]) tagged"
      and "map (\<lambda>t. parse (if take 1 t = ''q'' then drop 1 t else t)) ts = map Inr qs"
  shows "(\<forall>cal0. Calibration_init parse (p\<lparr>metrics := pre\<rparr>) = Inr cal0 \<longrightarrow>
            (\<exists>cal b. Calibration_init parse (p\<lparr>metrics := pre @ [m]\<rparr>) = Inr cal \<and>
                     map_of (metric_dict cal) (metric_name m) = Some b \<and>
                     map_of b qs = Some (map snd tagged))) \<and>
         (\<forall>cal. Calibration_init parse p = Inr cal \<and>
                (\<forall>m' \<in> set post. \<forall>ts'.
                    metric_name m' = metric_name m \<and> metric_targets m' = Some ts' \<longrightarrow>
                    map (\<lambda>t. parse (if take 1 t = ''q'' then drop 1 t else t)) ts'
                      \<noteq> map Inr qs) \<longrightarrow>
            (\<exists>b. map_of (metric_dict cal) (metric_name m) = Some b \<and>
                 map_of b qs = Some (map snd tagged)))"
proof (intro conjI allI impI)
  have sq: "strip_q t = (if take 1 t = ''q'' then drop 1 t else t)" for t
    by (cases t) auto
  have pq: "parse_qubits parse (map strip_q ts') = Inr qs \<longleftrightarrow>
        map (\<lambda>t. parse (if take 1 t = ''q'' then drop 1 t else t)) ts' = map Inr qs" for ts'
  proof -
    have "map parse (map strip_q ts') =
          map (\<lambda>t. parse (if take 1 t = ''q'' then drop 1 t else t)) ts'"
      by (simp add: sq comp_def del: strip_q.simps)
    then show ?thesis by (simp only: parse_qubits_map)
  qed
  have q: "parse_qubits parse (map strip_q ts) = Inr qs"
    using assms(4) by (simp only: pq)
  have f: "flat_values (metric_values m) = map snd tagged"
    using assms(3) by (simp add: flat_values_tagged)
  {
    fix cal0
    assume "Calibration_init parse (p\<lparr>metrics := pre\<rparr>) = Inr cal0"
    then obtain t r where tv: "py_int (timestampMs p) = Inr t"
      and r: "compute_metric_dict parse pre = Inr r"
      by (auto simp: Calibration_init_Inr)
    let ?d = "store r (metric_name m) qs (map snd tagged)"
    have "metric_step parse r m = Inr ?d"
      using metric_step_targeted [OF assms(2) q, of r] f by simp
    then have "compute_metric_dict parse (pre @ [m]) = Inr ?d"
      using r metric_loop_append [of parse "[]" pre "[m]"]
      by (simp add: compute_metric_dict_def)
    then have "Calibration_init parse (p\<lparr>metrics := pre @ [m]\<rparr>) =
                 Inr \<lparr>timestamp = t, metric_dict = ?d\<rparr>"
      using tv by (simp add: Calibration_init_def)
    moreover have "map_of ?d (metric_name m) =
        Some (AList.update qs (map snd tagged) (bucket_of r (metric_name m)))"
      by (simp add: store_map_of)
    moreover have "map_of (AList.update qs (map snd tagged) (bucket_of r (metric_name m))) qs =
        Some (map snd tagged)"
      by (simp add: update_conv')
    ultimately show "\<exists>cal b. Calibration_init parse (p\<lparr>metrics := pre @ [m]\<rparr>) = Inr cal \<and>
                     map_of (metric_dict cal) (metric_name m) = Some b \<and>
                     map_of b qs = Some (map snd tagged)"
      by simp
  }
  {
    fix cal
    assume a: "Calibration_init parse p = Inr cal \<and>
                (\<forall>m' \<in> set post. \<forall>ts'.
                    metric_name m' = metric_name m \<and> metric_targets m' = Some ts' \<longrightarrow>
                    map (\<lambda>t. parse (if take 1 t = ''q'' then drop 1 t else t)) ts'
                      \<noteq> map Inr qs)"
    then obtain t d where d: "compute_metric_dict parse (pre @ m # post) = Inr d"
      and cal: "cal = \<lparr>timestamp = t, metric_dict = d\<rparr>"
      using assms(1) by (auto simp: Calibration_init_Inr)
    have o: "\<forall>m' \<in> set post. \<forall>ts'. metric_name m' = metric_name m \<and> metric_targets m' = Some ts' \<longrightarrow>
                parse_qubits parse (map strip_q ts') \<noteq> Inr qs"
      using a by (simp only: pq) blast
    show "\<exists>b. map_of (metric_dict cal) (metric_name m) = Some b \<and>
                 map_of b qs = Some (map snd tagged)"
      using stored_entry_survives [OF d assms(2) q o] f cal by simp
  }
qed

theorem targeted_record_stored_witness:
  "map (\<lambda>t. from_proto_id (if take 1 t = ''q'' then drop 1 t else t)) [''q0_0'']
     = map Inr [GridQubit 0 0] \<and>
   map (\<lambda>t. from_proto_id (if take 1 t = ''q'' then drop 1 t else t)) [''q0_1'']
     \<noteq> map Inr [GridQubit 0 0] \<and>
   Calibration_init from_proto_id (example_payload\<lparr>metrics := []\<rparr>)
     = Inr \<lparr>timestamp = 1000, metric_dict = []\<rparr> \<and>
   Calibration_init from_proto_id example_payload = Inr example_calibration \<and>
   (\<exists>cal b. Calibration_init from_proto_id
               (example_payload\<lparr>metrics := [] @
                  [\<lparr>metric_name = PStr ''t1'', metric_values = [[(''double_val'', 321)]],
                    metric_targets = Some [''q0_0'']\<rparr>]\<rparr>) = Inr cal \<and>
             map_of (metric_dict cal) (PStr ''t1'') = Some b \<and>
             map_of b [GridQubit 0 0] = Some [321]) \<and>
   (\<exists>b. map_of (metric_dict example_calibration) (PStr ''t1'') = Some b \<and>
        map_of b [GridQubit 0 0] = Some [321])"
proof -
  let ?m = "\<lparr>metric_name = PStr ''t1'', metric_values = [[(''double_val'', 321::int)]],
              metric_targets = Some [''q0_0'']\<rparr>"
  let ?post = "[\<lparr>metric_name = PStr ''fidelity'', metric_values = [[(''double_val'', 1::int)]],
                 metric_targets = None\<rparr>,
                \<lparr>metric_name = PStr ''t1'', metric_values = [[(''double_val'', 11)]],
                 metric_targets = Some [''q0_1'']\<rparr>,
                \<lparr>metric_name = PStr ''xeb'',
                 metric_values = [[(''double_val'', 1)], [(''double_val'', 2)]],
                 metric_targets = Some [''q0_0'']\<rparr>]"
  have a: "metrics example_payload = [] @ ?m # ?post"
    by (simp add: example_payload_def)
  have b: "metric_targets ?m = Some [''q0_0'']" by simp
  have c: "metric_values ?m = map (\<lambda>(tag, x). [(tag, x)]) [(''double_val'', 321)]" by simp
  have d: "map (\<lambda>t. from_proto_id (if take 1 t = ''q'' then drop 1 t else t)) [''q0_0'']
     = map Inr [GridQubit 0 0]"
    by (simp add: eval_defs)
  have e: "map (\<lambda>t. from_proto_id (if take 1 t = ''q'' then drop 1 t else t)) [''q0_1'']
     \<noteq> map Inr [GridQubit 0 0]"
    by (simp add: eval_defs)
  have f: "Calibration_init from_proto_id (example_payload\<lparr>metrics := []\<rparr>)
     = Inr \<lparr>timestamp = 1000, metric_dict = []\<rparr>"
    by (simp add: example_payload_def eval_defs)
  have g: "Calibration_init from_proto_id example_payload = Inr example_calibration"
    by (simp add: example_payload_def example_calibration_def eval_defs)
  have o: "\<forall>m' \<in> set ?post. \<forall>ts'.
             metric_name m' = metric_name ?m \<and> metric_targets m' = Some ts' \<longrightarrow>
             map (\<lambda>t. from_proto_id (if take 1 t = ''q'' then drop 1 t else t)) ts'
               \<noteq> map Inr [GridQubit 0 0]"
    using e by simp
  note th = targeted_record_stored [OF a b c d]
  have one: "\<exists>cal b. Calibration_init from_proto_id (example_payload\<lparr>metrics := [] @ [?m]\<rparr>) = Inr cal \<and>
             map_of (metric_dict cal) (PStr ''t1'') = Some b \<and>
             map_of b [GridQubit 0 0] = Some [321]"
    using th f by simp
  have two: "\<exists>b. map_of (metric_dict example_calibration) (PStr ''t1'') = Some b \<and>
        map_of b [GridQubit 0 0] = Some [321]"
    using th g o by simp
  show ?thesis using d e f g one two by blast
qed

text \<open>
  Claim C9, as amended.  Let \<open>m1\<close> and a later \<open>m2\<close> be records of a payload with the
  same name and with targets that parse to the same tuple \<open>qs\<close>.  The later record raises
  no error and overwrites: if the payload cut before \<open>m2\<close> is constructed, so is the
  payload cut after \<open>m2\<close>, and its calibration is the former with the value of \<open>qs\<close> in
  the bucket of that name replaced by the flattened values of \<open>m2\<close>, the bucket keeping
  the keys it had, each once.  And whenever the whole payload is constructed and no record
  after \<open>m2\<close> has that name and targets that parse to \<open>qs\<close>, the constructed bucket maps
  \<open>qs\<close> to the flattened values of \<open>m2\<close>, every key being there once.  Whether the whole
  payload is constructed depends on its other records.
\<close>

theorem same_key_overwrites:
  assumes "metrics p = pre @ m1 # mid @ m2 # post"
      and "metric_name m2 = metric_name m1"
      and "metric_targets m1 = Some ts1" and "metric_targets m2 = Some ts2"
      and "map (\<lambda>t. parse (if take 1 t = ''q'' then drop 1 t else t)) ts1 = map Inr qs"
      and "map (\<lambda>t. parse (if take 1 t = ''q'' then drop 1 t else t)) ts2 = map Inr qs"
  shows "(\<forall>cal0. Calibration_init parse (p\<lparr>metrics := pre @ m1 # mid\<rparr>) = Inr cal0 \<longrightarrow>
            (\<exists>b0. map_of (metric_dict cal0) (metric_name m1) = Some b0 \<and>
                  qs \<in> set (dict_keys b0) \<and> distinct (dict_keys b0) \<and>
                  Calibration_init parse (p\<lparr>metrics := pre @ m1 # mid @ [m2]\<rparr>) =
                    Inr (cal0\<lparr>metric_dict :=
                           dict_setitem (metric_dict cal0) (metric_name m1)
                             (dict_setitem b0 qs (flat_values (metric_values m2)))\<rparr>) \<and>
                  dict_keys (dict_setitem b0 qs (flat_values (metric_values m2))) = dict_keys b0 \<and>
                  map_of (dict_setitem b0 qs (flat_values (metric_values m2))) qs =
                    Some (flat_values (metric_values m2)))) \<and>
         (\<forall>cal. Calibration_init parse p = Inr cal \<and>
                (\<forall>m' \<in> set post. \<forall>ts'.
                    metric_name m' = metric_name m1 \<and> metric_targets m' = Some ts' \<longrightarrow>
                    map (\<lambda>t. parse (if take 1 t = ''q'' then drop 1 t else t)) ts'
                      \<noteq> map Inr qs) \<longrightarrow>
            (\<exists>b. map_of (metric_dict cal) (metric_name m1) = Some b \<and>
                 distinct (dict_keys b) \<and>
                 map_of b qs = Some (flat_values (metric_values m2))))"
proof (intro conjI allI impI)
  let ?n = "metric_name m1"
  let ?f2 = "flat_values (metric_values m2)"
  have q1: "parse_qubits parse (map strip_q ts1) = Inr qs"
    using assms(5) by (simp only: parse_qubits_spec)
  have q2: "parse_qubits parse (map strip_q ts2) = Inr qs"
    using assms(6) by (simp only: parse_qubits_spec)
  {
    fix cal0
    assume "Calibration_init parse (p\<lparr>metrics := pre @ m1 # mid\<rparr>) = Inr cal0"
    then obtain tv d where tv: "py_int (timestampMs p) = Inr tv"
      and d: "compute_metric_dict parse (pre @ m1 # mid) = Inr d"
      and cal: "cal0 = \<lparr>timestamp = tv, metric_dict = d\<rparr>"
      by (auto simp: Calibration_init_Inr)
    obtain ra rb where ra: "metric_loop parse [] pre = Inr ra"
      and rb: "metric_step parse ra m1 = Inr rb" and rd: "metric_loop parse rb mid = Inr d"
      using metric_loop_snoc_split d unfolding compute_metric_dict_def by blast
    have "rb = store ra ?n qs (flat_values (metric_values m1))"
      using rb assms(3) q1 by (simp add: metric_step_targeted)
    then have "qs \<in> fst ` set (bucket_of rb ?n)"
      by (simp add: bucket_of_store dom_update)
    then have in_d: "qs \<in> fst ` set (bucket_of d ?n)"
      using metric_loop_bucket_keys [OF rd, of ?n] by blast
    then have ne: "bucket_of d ?n \<noteq> []" by auto
    have some: "map_of d ?n = Some (bucket_of d ?n)" using bucket_of_nonempty [OF ne] .
    have dist: "distinct (map fst (bucket_of d ?n))"
      using compute_metric_dict_distinct [OF d] by (simp add: buckets_distinct_def)
    have step2: "metric_step parse d m2 = Inr (store d ?n qs ?f2)"
      using assms(2,4) q2 by (simp add: metric_step_targeted)
    have "compute_metric_dict parse (pre @ m1 # mid @ [m2]) = Inr (store d ?n qs ?f2)"
      using d step2 metric_loop_append [of parse "[]" "pre @ m1 # mid" "[m2]"]
      by (simp add: compute_metric_dict_def)
    then have init: "Calibration_init parse (p\<lparr>metrics := pre @ m1 # mid @ [m2]\<rparr>) =
        Inr (cal0\<lparr>metric_dict :=
               dict_setitem (metric_dict cal0) ?n (dict_setitem (bucket_of d ?n) qs ?f2)\<rparr>)"
      using tv cal by (simp add: Calibration_init_def store_eq dict_setitem_def)
    have keys: "dict_keys (dict_setitem (bucket_of d ?n) qs ?f2) = dict_keys (bucket_of d ?n)"
      using in_d by (simp add: dict_keys_def dict_setitem_def update_keys)
    show "\<exists>b0. map_of (metric_dict cal0) ?n = Some b0 \<and>
                  qs \<in> set (dict_keys b0) \<and> distinct (dict_keys b0) \<and>
                  Calibration_init parse (p\<lparr>metrics := pre @ m1 # mid @ [m2]\<rparr>) =
                    Inr (cal0\<lparr>metric_dict :=
                           dict_setitem (metric_dict cal0) ?n (dict_setitem b0 qs ?f2)\<rparr>) \<and>
                  dict_keys (dict_setitem b0 qs ?f2) = dict_keys b0 \<and>
                  map_of (dict_setitem b0 qs ?f2) qs = Some ?f2"
      using some in_d dist init keys cal
      by (intro exI [of _ "bucket_of d ?n"]) (simp add: dict_keys_def dict_setitem_def update_conv')
  }
  {
    fix cal
    assume a: "Calibration_init parse p = Inr cal \<and>
                (\<forall>m' \<in> set post. \<forall>ts'.
                    metric_name m' = metric_name m1 \<and> metric_targets m' = Some ts' \<longrightarrow>
                    map (\<lambda>t. parse (if take 1 t = ''q'' then drop 1 t else t)) ts'
                      \<noteq> map Inr qs)"
    then obtain t d where d: "compute_metric_dict parse ((pre @ m1 # mid) @ m2 # post) = Inr d"
      and cal: "cal = \<lparr>timestamp = t, metric_dict = d\<rparr>"
      using assms(1) by (auto simp: Calibration_init_Inr)
    have o: "\<forall>m' \<in> set post. \<forall>ts'. metric_name m' = metric_name m2 \<and> metric_targets m' = Some ts' \<longrightarrow>
                parse_qubits parse (map strip_q ts') \<noteq> Inr qs"
      using a assms(2) by (simp only: parse_qubits_spec) blast
    show "\<exists>b. map_of (metric_dict cal) ?n = Some b \<and> distinct (dict_keys b) \<and>
                 map_of b qs = Some ?f2"
      using stored_entry_survives [OF d assms(4) q2 o] assms(2) cal
      by (simp add: dict_keys_def)
  }
qed

theorem same_key_overwrites_witness:
  "map (\<lambda>t. from_proto_id (if take 1 t = ''q'' then drop 1 t else t)) [''q0_0'']
     = map Inr [GridQubit 0 0] \<and>
   map (\<lambda>t. from_proto_id (if take 1 t = ''q'' then drop 1 t else t)) [''0_0'']
     = map Inr [GridQubit 0 0] \<and>
   map (\<lambda>t. from_proto_id (if take 1 t = ''q'' then drop 1 t else t)) [''q1_1'']
     \<noteq> map Inr [GridQubit 0 0] \<and>
   Calibration_init from_proto_id
     \<lparr>timestampMs = PInt 5,
      metrics = [\<lparr>metric_name = PStr ''t1'', metric_values = [[(''double_val'', 1::int)]],
                  metric_targets = Some [''q0_0'']\<rparr>,
                 \<lparr>metric_name = PStr ''t1'', metric_values = [[(''double_val'', 7)]],
                  metric_targets = Some [''q0_1'']\<rparr>]\<rparr>
     = Inr \<lparr>timestamp = 5,
            metric_dict = [(PStr ''t1'', [([GridQubit 0 0], [1]), ([GridQubit 0 1], [7])])]\<rparr> \<and>
   Calibration_init from_proto_id
     \<lparr>timestampMs = PInt 5,
      metrics = [\<lparr>metric_name = PStr ''t1'', metric_values = [[(''double_val'', 1::int)]],
                  metric_targets = Some [''q0_0'']\<rparr>,
                 \<lparr>metric_name = PStr ''t1'', metric_values = [[(''double_val'', 7)]],
                  metric_targets = Some [''q0_1'']\<rparr>,
                 \<lparr>metric_name = PStr ''t1'', metric_values = [[(''double_val'', 2)]],
                  metric_targets = Some [''0_0'']\<rparr>]\<rparr>
     = Inr \<lparr>timestamp = 5,
            metric_dict = [(PStr ''t1'', [([GridQubit 0 0], [2]), ([GridQubit 0 1], [7])])]\<rparr> \<and>
   Calibration_init from_proto_id
     \<lparr>timestampMs = PInt 5,
      metrics = [\<lparr>metric_name = PStr ''t1'', metric_values = [[(''double_val'', 1::int)]],
                  metric_targets = Some [''q0_0'']\<rparr>,
                 \<lparr>metric_name = PStr ''t1'', metric_values = [[(''double_val'', 7)]],
                  metric_targets = Some [''q0_1'']\<rparr>,
                 \<lparr>metric_name = PStr ''t1'', metric_values = [[(''double_val'', 2)]],
                  metric_targets = Some [''0_0'']\<rparr>,
                 \<lparr>metric_name = PStr ''t1'', metric_values = [[(''double_val'', 8)]],
                  metric_targets = Some [''q1_1'']\<rparr>]\<rparr>
     = Inr \<lparr>timestamp = 5,
            metric_dict = [(PStr ''t1'', [([GridQubit 0 0], [2]), ([GridQubit 0 1], [7]),
                                         ([GridQubit 1 1], [8])])]\<rparr>"
proof -
  let ?m1 = "\<lparr>metric_name = PStr ''t1'', metric_values = [[(''double_val'', 1::int)]],
               metric_targets = Some [''q0_0'']\<rparr>"
  let ?x = "\<lparr>metric_name = PStr ''t1'', metric_values = [[(''double_val'', 7::int)]],
              metric_targets = Some [''q0_1'']\<rparr>"
  let ?m2 = "\<lparr>metric_name = PStr ''t1'', metric_values = [[(''double_val'', 2::int)]],
               metric_targets = Some [''0_0'']\<rparr>"
  let ?y = "\<lparr>metric_name = PStr ''t1'', metric_values = [[(''double_val'', 8::int)]],
              metric_targets = Some [''q1_1'']\<rparr>"
  let ?p = "\<lparr>timestampMs = PInt 5, metrics = [?m1, ?x, ?m2, ?y]\<rparr>"
  let ?before = "\<lparr>timestamp = 5,
      metric_dict = [(PStr ''t1'', [([GridQubit 0 0], [1::int]), ([GridQubit 0 1], [7])])]\<rparr>"
  let ?cal = "\<lparr>timestamp = 5,
      metric_dict = [(PStr ''t1'', [([GridQubit 0 0], [2::int]), ([GridQubit 0 1], [7]),
                                   ([GridQubit 1 1], [8])])]\<rparr>"
  have a: "metrics ?p = [] @ ?m1 # [?x] @ ?m2 # [?y]" by simp
  have b: "metric_name ?m2 = metric_name ?m1" by simp
  have c1: "metric_targets ?m1 = Some [''q0_0'']" by simp
  have c2: "metric_targets ?m2 = Some [''0_0'']" by simp
  have d1: "map (\<lambda>t. from_proto_id (if take 1 t = ''q'' then drop 1 t else t)) [''q0_0'']
     = map Inr [GridQubit 0 0]"
    by (simp add: eval_defs)
  have d2: "map (\<lambda>t. from_proto_id (if take 1 t = ''q'' then drop 1 t else t)) [''0_0'']
     = map Inr [GridQubit 0 0]"
    by (simp add: eval_defs)
  have e: "map (\<lambda>t. from_proto_id (if take 1 t = ''q'' then drop 1 t else t)) [''q1_1'']
     \<noteq> map Inr [GridQubit 0 0]"
    by (simp add: eval_defs)
  have f: "Calibration_init from_proto_id (?p\<lparr>metrics := [] @ ?m1 # [?x]\<rparr>) = Inr ?before"
    by (simp add: eval_defs)
  have g: "Calibration_init from_proto_id ?p = Inr ?cal"
    by (simp add: eval_defs)
  have o: "\<forall>m' \<in> set [?y]. \<forall>ts'.
             metric_name m' = metric_name ?m1 \<and> metric_targets m' = Some ts' \<longrightarrow>
             map (\<lambda>t. from_proto_id (if take 1 t = ''q'' then drop 1 t else t)) ts'
               \<noteq> map Inr [GridQubit 0 0]"
    using e by simp
  note th = same_key_overwrites [OF a b c1 c2 d1 d2]
  have one: "Calibration_init from_proto_id (?p\<lparr>metrics := [] @ ?m1 # [?x] @ [?m2]\<rparr>) =
      Inr \<lparr>timestamp = 5,
           metric_dict = [(PStr ''t1'', [([GridQubit 0 0], [2]), ([GridQubit 0 1], [7])])]\<rparr>"
    using th f by (simp add: eval_defs)
  have two: "\<exists>b. map_of (metric_dict ?cal) (PStr ''t1'') = Some b \<and> distinct (dict_keys b) \<and>
      map_of b [GridQubit 0 0] = Some [2]"
    using th [THEN conjunct2, THEN spec, THEN mp, OF conjI [OF g o]]
    by (simp add: eval_defs)
  show ?thesis using d1 d2 e f g one two by simp
qed

text \<open>
  Claim C9, as stated, promises that a payload with two such records is constructed.  The
  payload whose first two records are of \<^verbatim>\<open>m\<close> with the target \<^verbatim>\<open>q0_0\<close> and whose third
  record is of \<^verbatim>\<open>m\<close> without targets is not: the third record meets a bucket that is not
  empty, and the assertion of \<^verbatim>\<open>_compute_metric_dict\<close> fails.
\<close>

theorem same_key_then_untargeted_fails:
  "metric_name \<lparr>metric_name = PStr ''m'', metric_values = [[(''double_val'', 2::int)]],
                metric_targets = Some [''q0_0'']\<rparr>
     = metric_name \<lparr>metric_name = PStr ''m'', metric_values = [[(''double_val'', 1::int)]],
                    metric_targets = Some [''q0_0'']\<rparr> \<and>
   parse_qubits from_proto_id (map strip_q [''q0_0'']) = Inr [GridQubit 0 0] \<and>
   Calibration_init from_proto_id
     \<lparr>timestampMs = PInt 0,
      metrics = [\<lparr>metric_name = PStr ''m'', metric_values = [[(''double_val'', 1::int)]],
                  metric_targets = Some [''q0_0'']\<rparr>,
                 \<lparr>metric_name = PStr ''m'', metric_values = [[(''double_val'', 2)]],
                  metric_targets = Some [''q0_0'']\<rparr>,
                 \<lparr>metric_name = PStr ''m'', metric_values = [[(''double_val'', 3)]],
                  metric_targets = None\<rparr>]\<rparr>
   = Inl (AssertionError Only_one_untargeted)"
  by (simp add: eval_defs)

text \<open>
  Claim C2.  When the timestamp is converted, the records before a record \<open>m\<close> are
  processed without error, \<open>m\<close> has no targets and the bucket of its name has an entry
  when \<open>m\<close> is reached, then construction raises the \<^verbatim>\<open>AssertionError\<close> of
  \<^verbatim>\<open>_compute_metric_dict\<close> (DuplicateGlobalMetric): the result is the error, not a
  calibration.  The case of two records without targets of one name is
  \<open>two_untargeted_fail\<close> below.
\<close>

theorem untargeted_on_nonempty_bucket_fails:
  assumes "py_int (timestampMs p) = Inr t"
      and "metrics p = pre @ m # post"
      and "compute_metric_dict parse pre = Inr r"
      and "metric_targets m = None"
      and "map_of r (metric_name m) = Some b" and "b \<noteq> []"
  shows "Calibration_init parse p = Inl (AssertionError Only_one_untargeted)"
proof -
  have "bucket_of r (metric_name m) \<noteq> []" using assms(5,6) by (simp add: bucket_of_def)
  then have "metric_step parse r m = Inl (AssertionError Only_one_untargeted)"
    using assms(4) by (simp add: metric_step_untargeted)
  then have "compute_metric_dict parse (metrics p) = Inl (AssertionError Only_one_untargeted)"
    using assms(2,3) by (simp add: compute_metric_dict_def metric_loop_append)
  then show ?thesis using assms(1) by (simp add: Calibration_init_def)
qed

theorem untargeted_on_nonempty_bucket_fails_witness:
  "py_int (timestampMs \<lparr>timestampMs = PInt 5,
      metrics = [\<lparr>metric_name = PStr ''t1'', metric_values = [[(''double_val'', 1::int)]],
                  metric_targets = Some [''q0_0'']\<rparr>,
                 \<lparr>metric_name = PStr ''t1'', metric_values = [[(''double_val'', 2)]],
                  metric_targets = None\<rparr>]\<rparr>) = Inr 5 \<and>
   compute_metric_dict from_proto_id
     [\<lparr>metric_name = PStr ''t1'', metric_values = [[(''double_val'', 1::int)]],
       metric_targets = Some [''q0_0'']\<rparr>] = Inr [(PStr ''t1'', [([GridQubit 0 0], [1])])] \<and>
   Calibration_init from_proto_id
     \<lparr>timestampMs = PInt 5,
      metrics = [\<lparr>metric_name = PStr ''t1'', metric_values = [[(''double_val'', 1::int)]],
                  metric_targets = Some [''q0_0'']\<rparr>,
                 \<lparr>metric_name = PStr ''t1'', metric_values = [[(''double_val'', 2)]],
                  metric_targets = None\<rparr>]\<rparr>
     = Inl (AssertionError Only_one_untargeted)"
proof -
  let ?m1 = "\<lparr>metric_name = PStr ''t1'', metric_values = [[(''double_val'', 1::int)]],
               metric_targets = Some [''q0_0'']\<rparr>"
  let ?m2 = "\<lparr>metric_name = PStr ''t1'', metric_values = [[(''double_val'', 2::int)]],
               metric_targets = None\<rparr>"
  let ?p = "\<lparr>timestampMs = PInt 5, metrics = [?m1, ?m2]\<rparr>"
  have a: "py_int (timestampMs ?p) = Inr 5" by simp
  have b: "metrics ?p = [?m1] @ ?m2 # []" by simp
  have c: "compute_metric_dict from_proto_id [?m1] = Inr [(PStr ''t1'', [([GridQubit 0 0], [1])])]"
    by (simp add: eval_defs)
  have d: "metric_targets ?m2 = None" by simp
  have e: "map_of [(PStr ''t1'', [([GridQubit 0 0], [1::int])])] (metric_name ?m2)
             = Some [([GridQubit 0 0], [1])]" by simp
  have f: "[([GridQubit 0 0], [1::int])] \<noteq> []" by simp
  show ?thesis
    using a c untargeted_on_nonempty_bucket_fails [OF a b c d e f] by simp
qed

lemma two_untargeted_fail:
  assumes "py_int (timestampMs p) = Inr t"
      and "metrics p = pre @ m1 # mid @ m2 # post"
      and "compute_metric_dict parse (pre @ m1 # mid) = Inr r"
      and "metric_targets m1 = None" and "metric_targets m2 = None"
      and "metric_name m2 = metric_name m1"
  shows "Calibration_init parse p = Inl (AssertionError Only_one_untargeted)"
proof -
  obtain ra rb where ra: "metric_loop parse [] pre = Inr ra"
    and rb: "metric_step parse ra m1 = Inr rb" and rd: "metric_loop parse rb mid = Inr r"
    using metric_loop_snoc_split assms(3) unfolding compute_metric_dict_def by blast
  have "rb = store ra (metric_name m1) [] (flat_values (metric_values m1))"
    using rb assms(4) by (auto simp: metric_step_untargeted split: if_splits)
  then have "[] \<in> fst ` set (bucket_of rb (metric_name m1))"
    by (simp add: bucket_of_store dom_update)
  then have "[] \<in> fst ` set (bucket_of r (metric_name m1))"
    using metric_loop_bucket_keys [OF rd, of "metric_name m1"] by blast
  then have "bucket_of r (metric_name m2) \<noteq> []" using assms(6) by auto
  then have "metric_step parse r m2 = Inl (AssertionError Only_one_untargeted)"
    using assms(5) by (simp add: metric_step_untargeted)
  then have "compute_metric_dict parse (metrics p) = Inl (AssertionError Only_one_untargeted)"
    using assms(2,3) metric_loop_append [of parse "[]" "pre @ m1 # mid" "m2 # post"]
    by (simp add: compute_metric_dict_def)
  then show ?thesis using assms(1) by (simp add: Calibration_init_def)
qed

text \<open>
  Claim C7.  For a payload that is constructed, \<^verbatim>\<open>__iter__\<close> returns the metric names of
  the records in the order of their first occurrence, each once, and leaves the object as
  it is (so every call traverses the same finite list); \<^verbatim>\<open>__len__\<close> is the number of
  distinct names of the records.
\<close>

theorem iteration_order:
  assumes "Calibration_init parse p = Inr cal"
  shows "Calibration_iter cal = (first_occurrences (map metric_name (metrics p)), cal) \<and>
         distinct (fst (Calibration_iter cal)) \<and>
         set (fst (Calibration_iter cal)) = set (map metric_name (metrics p)) \<and>
         Calibration_len cal = (card (set (map metric_name (metrics p))), cal)"
proof -
  obtain t d where d: "compute_metric_dict parse (metrics p) = Inr d"
    and cal: "cal = \<lparr>timestamp = t, metric_dict = d\<rparr>"
    using assms by (auto simp: Calibration_init_Inr)
  have keys: "map fst d = first_occurrences (map metric_name (metrics p))"
    using metric_loop_keys [of parse "[]" "metrics p" d] d
    by (simp add: compute_metric_dict_def)
  have "length d = card (set (map metric_name (metrics p)))"
    using length_first_occurrences [of "map metric_name (metrics p)"] keys [symmetric]
    by simp
  then show ?thesis
    using keys cal
    by (simp add: Calibration_iter_def Calibration_len_def dict_keys_def
        distinct_first_occurrences set_first_occurrences)
qed

theorem iteration_order_witness:
  "Calibration_init from_proto_id example_payload = Inr example_calibration \<and>
   map metric_name (metrics example_payload)
     = [PStr ''t1'', PStr ''fidelity'', PStr ''t1'', PStr ''xeb''] \<and>
   Calibration_iter example_calibration
     = ([PStr ''t1'', PStr ''fidelity'', PStr ''xeb''], example_calibration) \<and>
   Calibration_len example_calibration = (3, example_calibration)"
proof -
  have h: "Calibration_init from_proto_id example_payload = Inr example_calibration"
    by (simp add: example_payload_def example_calibration_def eval_defs)
  have c: "card {PStr ''t1'', PStr ''fidelity'', PStr ''xeb''} = 3"
    by simp
  show ?thesis
    using h c iteration_order [OF h]
    by (simp add: example_payload_def insert_commute)
qed

text \<open>
  Claim C3.  Let \<open>key\<close> be a metric name (a string) with the bucket \<open>b\<close> in a constructed
  calibration.  If every key of \<open>b\<close> is a tuple of one qubit and every value a list of one
  element, \<^verbatim>\<open>heatmap\<close> returns a mapping \<open>hm\<close> of which \<open>b\<close> is the image, entry by
  entry in the same order, under wrapping qubit and value into a tuple and a list of one
  element.  If some key is not a tuple of one qubit (the empty tuple of a record without
  targets included) the first assertion fails, and if the keys are single qubits but some
  value list is not of one element the second assertion fails (HeatmapShapeError both).
  The calibration is the same object after every one of the three.
\<close>

theorem heatmap_shape:
  assumes "Calibration_init parse p = Inr cal"
      and "is_str key"
      and "map_of (metric_dict cal) key = Some b"
  shows "(list_all (\<lambda>k. length k = 1) (map fst b) \<and> list_all (\<lambda>v. length v = 1) (map snd b) \<longrightarrow>
            (\<exists>hm. heatmap cal key = (Inr (Heatmap hm), cal) \<and>
                  b = map (\<lambda>(q, x). ([q], [x])) hm)) \<and>
         (\<not> list_all (\<lambda>k. length k = 1) (map fst b) \<longrightarrow>
            heatmap cal key = (Inl (AssertionError Heatmap_single_qubits), cal)) \<and>
         (list_all (\<lambda>k. length k = 1) (map fst b) \<and> \<not> list_all (\<lambda>v. length v = 1) (map snd b) \<longrightarrow>
            heatmap cal key = (Inl (AssertionError Heatmap_single_values), cal))"
proof -
  have g: "Calibration_getitem cal key = (Inr b, cal)"
    using assms(2,3) by (rule getitem_present)
  obtain t d where d: "compute_metric_dict parse (metrics p) = Inr d"
    and cal: "cal = \<lparr>timestamp = t, metric_dict = d\<rparr>"
    using assms(1) by (auto simp: Calibration_init_Inr)
  have "bucket_of d key = b" using assms(3) cal by (simp add: bucket_of_def)
  then have dist: "distinct (map fst b)"
    using compute_metric_dict_distinct [OF d] by (auto simp: buckets_distinct_def)
  have A: "\<exists>hm. heatmap cal key = (Inr (Heatmap hm), cal) \<and> b = map (\<lambda>(q, x). ([q], [x])) hm"
    if k: "list_all (\<lambda>k. length k = 1) (map fst b)"
      and v: "list_all (\<lambda>v. length v = 1) (map snd b)"
  proof -
    obtain hm where hm: "b = map (\<lambda>(q, x). ([q], [x])) hm"
      using singleton_shape [OF k v] by blast
    have "distinct (map fst hm)" using dist hm singleton_keys_distinct by blast
    then have "value_map b [] = Inr hm"
      using value_map_singletons [of "[]" hm] hm by simp
    then have "heatmap cal key = (Inr (Heatmap hm), cal)"
      using g k v by (simp add: heatmap_def)
    with hm show ?thesis by blast
  qed
  have B: "heatmap cal key = (Inl (AssertionError Heatmap_single_qubits), cal)"
    if "\<not> list_all (\<lambda>k. length k = 1) (map fst b)"
    using that g by (simp add: heatmap_def)
  have C: "heatmap cal key = (Inl (AssertionError Heatmap_single_values), cal)"
    if "list_all (\<lambda>k. length k = 1) (map fst b)" "\<not> list_all (\<lambda>v. length v = 1) (map snd b)"
    using that g by (simp add: heatmap_def)
  show ?thesis using A B C by blast
qed

theorem heatmap_shape_witness:
  "Calibration_init from_proto_id example_payload = Inr example_calibration \<and>
   is_str (PStr ''t1'') \<and>
   map_of (metric_dict example_calibration) (PStr ''t1'')
     = Some [([GridQubit 0 0], [321]), ([GridQubit 0 1], [11])] \<and>
   heatmap example_calibration (PStr ''t1'')
     = (Inr (Heatmap [(GridQubit 0 0, 321), (GridQubit 0 1, 11)]), example_calibration) \<and>
   map_of (metric_dict example_calibration) (PStr ''fidelity'') = Some [([], [1])] \<and>
   heatmap example_calibration (PStr ''fidelity'')
     = (Inl (AssertionError Heatmap_single_qubits), example_calibration) \<and>
   map_of (metric_dict example_calibration) (PStr ''xeb'') = Some [([GridQubit 0 0], [1, 2])] \<and>
   heatmap example_calibration (PStr ''xeb'')
     = (Inl (AssertionError Heatmap_single_values), example_calibration)"
proof -
  have h: "Calibration_init from_proto_id example_payload = Inr example_calibration"
    by (simp add: example_payload_def example_calibration_def eval_defs)
  have s: "is_str (PStr ''t1'')" "is_str (PStr ''fidelity'')" "is_str (PStr ''xeb'')"
    by simp_all
  have t1: "map_of (metric_dict example_calibration) (PStr ''t1'')
     = Some [([GridQubit 0 0], [321]), ([GridQubit 0 1], [11])]"
    by (simp add: example_calibration_def)
  have fid: "map_of (metric_dict example_calibration) (PStr ''fidelity'') = Some [([], [1])]"
    by (simp add: example_calibration_def)
  have xeb: "map_of (metric_dict example_calibration) (PStr ''xeb'')
     = Some [([GridQubit 0 0], [1, 2])]"
    by (simp add: example_calibration_def)
  have a: "heatmap example_calibration (PStr ''t1'')
     = (Inr (Heatmap [(GridQubit 0 0, 321), (GridQubit 0 1, 11)]), example_calibration)"
    using heatmap_shape [OF h s(1) t1] by auto
  have b: "heatmap example_calibration (PStr ''fidelity'')
     = (Inl (AssertionError Heatmap_single_qubits), example_calibration)"
    using heatmap_shape [OF h s(2) fid] by simp
  have c: "heatmap example_calibration (PStr ''xeb'')
     = (Inl (AssertionError Heatmap_single_values), example_calibration)"
    using heatmap_shape [OF h s(3) xeb] by simp
  show ?thesis using h s t1 fid xeb a b c by simp
qed

text \<open>
  Claim C1.  The claim is that no bucket of a constructed calibration holds the empty tuple
  beside another key, whatever the order of the records.  The assertion guards only the
  record without targets; a record with targets is stored without any check.  The payload
  whose first record of \<^verbatim>\<open>m\<close> has no targets and whose second record of \<^verbatim>\<open>m\<close> targets
  \<^verbatim>\<open>q0_0\<close> is constructed without error, and the bucket of \<^verbatim>\<open>m\<close> then has the empty
  tuple and the tuple of that qubit.
\<close>

theorem untargeted_then_targeted_accepted:
  "Calibration_init from_proto_id
     \<lparr>timestampMs = PInt 0,
      metrics = [\<lparr>metric_name = PStr ''m'', metric_values = [[(''double_val'', 1::int)]],
                  metric_targets = None\<rparr>,
                 \<lparr>metric_name = PStr ''m'', metric_values = [[(''double_val'', 2)]],
                  metric_targets = Some [''q0_0'']\<rparr>]\<rparr>
   = Inr \<lparr>timestamp = 0,
          metric_dict = [(PStr ''m'', [([], [1]), ([GridQubit 0 0], [2])])]\<rparr>"
  by (simp add: eval_defs)

end
